theory Spec2Isabelle
  imports Main
begin

section \<open>spea-PolicyLint: the policy loader, the schema loader, the validator and the driver\<close>

text \<open>
  The program (\<^verbatim>\<open>src/main.py\<close>) reads a policy file (YAML or JSON) and a JSON schema file
  and hands both to \<^verbatim>\<open>jsonschema.validate\<close>. Its own code is file opening, the choice of
  the parser, a check of the root's shape, logging, and the mapping of exceptions to a
  printed message and an exit code. This theory embeds exactly that code. What the program
  consumes from outside (the file system, \<^verbatim>\<open>yaml.safe_load\<close>, \<^verbatim>\<open>json.load\<close>,
  \<^verbatim>\<open>jsonschema.validate\<close>) is a parameter of the model, the record \<open>env\<close>; every general
  theorem holds for all values of that parameter.
\<close>

subsection \<open>Python values\<close>

text \<open>
  What the two parsers build: \<^verbatim>\<open>None\<close>, booleans, integers, floats (a float is
  given by its \<^verbatim>\<open>repr\<close>, which determines it), strings, lists and dictionaries. A dictionary is an association list in
  insertion order; YAML allows keys that are not strings, so a key is a value too.
\<close>

datatype pyval =
    PNone
  | PBool bool
  | PInt int
  | PFloat string
  | PStr string
  | PList "pyval list"
  | PDict "(pyval \<times> pyval) list"

text \<open>\<^verbatim>\<open>isinstance(v, dict)\<close>\<close>

fun is_dict :: "pyval \<Rightarrow> bool" where
  "is_dict (PDict kvs) = True"
| "is_dict v = False"

subsection \<open>Exceptions\<close>

text \<open>
  The exception classes the program names or can meet, and for each one its method
  resolution order. \<^verbatim>\<open>json.JSONDecodeError\<close> and \<^verbatim>\<open>UnicodeDecodeError\<close> derive from
  \<^verbatim>\<open>ValueError\<close>; \<^verbatim>\<open>FileNotFoundError\<close>, \<^verbatim>\<open>PermissionError\<close> and
  \<^verbatim>\<open>IsADirectoryError\<close> from \<^verbatim>\<open>OSError\<close>; \<^verbatim>\<open>yaml.YAMLError\<close>,
  \<^verbatim>\<open>jsonschema.ValidationError\<close> and \<^verbatim>\<open>jsonschema.SchemaError\<close> directly from
  \<^verbatim>\<open>Exception\<close>. Only subclasses of \<^verbatim>\<open>Exception\<close> are modelled: an interrupt of the
  process is outside the model.
\<close>

datatype exn_class =
    Exception
  | OSError
  | FileNotFoundError
  | PermissionError
  | IsADirectoryError
  | ValueError
  | JSONDecodeError
  | UnicodeDecodeError
  | YAMLError
  | ValidationError
  | SchemaError
  | TypeError
  | RecursionError

fun mro :: "exn_class \<Rightarrow> exn_class list" where
  "mro Exception = [Exception]"
| "mro OSError = [OSError, Exception]"
| "mro FileNotFoundError = [FileNotFoundError, OSError, Exception]"
| "mro PermissionError = [PermissionError, OSError, Exception]"
| "mro IsADirectoryError = [IsADirectoryError, OSError, Exception]"
| "mro ValueError = [ValueError, Exception]"
| "mro JSONDecodeError = [JSONDecodeError, ValueError, Exception]"
| "mro UnicodeDecodeError = [UnicodeDecodeError, ValueError, Exception]"
| "mro YAMLError = [YAMLError, Exception]"
| "mro ValidationError = [ValidationError, Exception]"
| "mro SchemaError = [SchemaError, Exception]"
| "mro TypeError = [TypeError, Exception]"
| "mro RecursionError = [RecursionError, Exception]"

text \<open>An exception object: its class and \<^verbatim>\<open>str(e)\<close>.\<close>

datatype exn = Exn exn_class string

fun exn_cls :: "exn \<Rightarrow> exn_class" where
  "exn_cls (Exn c m) = c"

fun str_exn :: "exn \<Rightarrow> string" where
  "str_exn (Exn c m) = m"

text \<open>\<^verbatim>\<open>isinstance(e, c)\<close>, which is what an \<^verbatim>\<open>except c\<close> clause tests.\<close>

definition isinstance :: "exn \<Rightarrow> exn_class \<Rightarrow> bool" where
  "isinstance e c = (c \<in> set (mro (exn_cls e)))"

subsection \<open>The outside world\<close>

text \<open>
  An open file is given by the bytes it holds. Opening reads nothing: the bytes are read
  and decoded only by the parser the file is handed to, so an error of reading or decoding
  (\<^verbatim>\<open>UnicodeDecodeError\<close>) is raised by the parser, and by nothing when no parser is
  called.
\<close>

type_synonym file_obj = string

text \<open>
  \<open>open_file p\<close> is \<^verbatim>\<open>open(p, "r")\<close> alone: the open file, or the exception raised.
  The parsers take the open file, read it, and return the value built or the exception
  raised; \<open>validate\<close> is \<^verbatim>\<open>jsonschema.validate(instance, schema)\<close>, which returns
  nothing or raises.
\<close>

record env =
  open_file :: "string \<Rightarrow> exn + file_obj"
  yaml_safe_load :: "file_obj \<Rightarrow> exn + pyval"
  json_load :: "file_obj \<Rightarrow> exn + pyval"
  validate :: "pyval \<Rightarrow> pyval \<Rightarrow> exn option"

subsection \<open>Effects: the log, standard output, and the calls made\<close>

datatype log_level = DEBUG | INFO | WARNING | ERROR | CRITICAL

fun level_no :: "log_level \<Rightarrow> nat" where
  "level_no DEBUG = 10"
| "level_no INFO = 20"
| "level_no WARNING = 30"
| "level_no ERROR = 40"
| "level_no CRITICAL = 50"

datatype event =
    Opened string
  | YamlParsed file_obj
  | JsonParsed file_obj
  | Validated pyval pyval
  | Logged log_level string
  | Printed string

text \<open>
  The state threaded through the program: the level of the root logger and everything
  the run has done so far, oldest first.
\<close>

record state =
  level :: log_level
  trace :: "event list"

definition emit :: "event \<Rightarrow> state \<Rightarrow> state" where
  "emit ev st = st\<lparr>trace := trace st @ [ev]\<rparr>"

text \<open>A record below the logger's level is dropped.\<close>

definition logging_log :: "log_level \<Rightarrow> string \<Rightarrow> state \<Rightarrow> state" where
  "logging_log lvl msg st =
     (if level_no (level st) \<le> level_no lvl then emit (Logged lvl msg) st else st)"

definition logging_error :: "string \<Rightarrow> state \<Rightarrow> state" where
  "logging_error msg st = logging_log ERROR msg st"

definition logging_info :: "string \<Rightarrow> state \<Rightarrow> state" where
  "logging_info msg st = logging_log INFO msg st"

definition print :: "string \<Rightarrow> state \<Rightarrow> state" where
  "print msg st = emit (Printed msg) st"

text \<open>\<^verbatim>\<open>logging.getLogger().setLevel(l)\<close>\<close>

definition setLevel :: "log_level \<Rightarrow> state \<Rightarrow> state" where
  "setLevel l st = st\<lparr>level := l\<rparr>"

text \<open>\<^verbatim>\<open>logging.basicConfig(level=logging.INFO, ...)\<close> at import time.\<close>

definition initial_state :: state where
  "initial_state = \<lparr>level = INFO, trace = []\<rparr>"

subsection \<open>\<^verbatim>\<open>load_policy\<close>\<close>

text \<open>
  The body of the \<^verbatim>\<open>with\<close> block (lines 72 to 85): the parser is chosen by comparing
  \<open>format\<close> with the two literals; each inner handler logs and re-raises only the
  parser's own error class. With any other format the file is not read at all.
\<close>

definition parse_policy :: "env \<Rightarrow> file_obj \<Rightarrow> string \<Rightarrow> state \<Rightarrow> (exn + pyval) \<times> state" where
  "parse_policy E f format st =
     (if format = ''yaml'' then
        (let st1 = emit (YamlParsed f) st in
         case yaml_safe_load E f of
           Inr policy \<Rightarrow> (Inr policy, st1)
         | Inl e \<Rightarrow>
             if isinstance e YAMLError
             then (Inl e, logging_error (''Error parsing YAML file: '' @ str_exn e) st1)
             else (Inl e, st1))
      else if format = ''json'' then
        (let st1 = emit (JsonParsed f) st in
         case json_load E f of
           Inr policy \<Rightarrow> (Inr policy, st1)
         | Inl e \<Rightarrow>
             if isinstance e JSONDecodeError
             then (Inl e, logging_error (''Error parsing JSON file: '' @ str_exn e) st1)
             else (Inl e, st1))
      else (Inl (Exn ValueError ''Invalid format. Must be 'yaml' or 'json'.''), st))"

text \<open>The outer \<^verbatim>\<open>try\<close> block (lines 71 to 90): open, parse, check the root, return.\<close>

definition load_policy_try :: "env \<Rightarrow> string \<Rightarrow> string \<Rightarrow> state \<Rightarrow> (exn + pyval) \<times> state" where
  "load_policy_try E policy_file format st =
     (let st1 = emit (Opened policy_file) st in
      case open_file E policy_file of
        Inl e \<Rightarrow> (Inl e, st1)
      | Inr f \<Rightarrow>
          (case parse_policy E f format st1 of
             (Inl e, st2) \<Rightarrow> (Inl e, st2)
           | (Inr policy, st2) \<Rightarrow>
               if \<not> is_dict policy
               then (Inl (Exn ValueError ''Policy file must contain a dictionary.''), st2)
               else (Inr policy, st2)))"

text \<open>
  The two handlers of the outer \<^verbatim>\<open>try\<close> (lines 92 to 97), tried in the order written;
  both log and re-raise. Any other exception passes through untouched.
\<close>

definition load_policy :: "env \<Rightarrow> string \<Rightarrow> string \<Rightarrow> state \<Rightarrow> (exn + pyval) \<times> state" where
  "load_policy E policy_file format st =
     (case load_policy_try E policy_file format st of
        (Inr policy, st1) \<Rightarrow> (Inr policy, st1)
      | (Inl e, st1) \<Rightarrow>
          if isinstance e FileNotFoundError
          then (Inl e, logging_error (''Policy file not found: '' @ policy_file) st1)
          else if isinstance e ValueError
          then (Inl e, logging_error (str_exn e) st1)
          else (Inl e, st1))"

subsection \<open>\<^verbatim>\<open>load_schema\<close>\<close>

text \<open>
  Lines 114 to 127. The schema is always parsed as JSON, and the value parsed is returned
  as it is: there is no test of its shape. A \<^verbatim>\<open>JSONDecodeError\<close> is logged by the inner
  handler and again by the outer one.
\<close>

definition load_schema_try :: "env \<Rightarrow> string \<Rightarrow> state \<Rightarrow> (exn + pyval) \<times> state" where
  "load_schema_try E schema_file st =
     (let st1 = emit (Opened schema_file) st in
      case open_file E schema_file of
        Inl e \<Rightarrow> (Inl e, st1)
      | Inr f \<Rightarrow>
          (let st2 = emit (JsonParsed f) st1 in
           case json_load E f of
             Inr schema \<Rightarrow> (Inr schema, st2)
           | Inl e \<Rightarrow>
               if isinstance e JSONDecodeError
               then (Inl e, logging_error (''Error parsing JSON file: '' @ str_exn e) st2)
               else (Inl e, st2)))"

definition load_schema :: "env \<Rightarrow> string \<Rightarrow> state \<Rightarrow> (exn + pyval) \<times> state" where
  "load_schema E schema_file st =
     (case load_schema_try E schema_file st of
        (Inr schema, st1) \<Rightarrow> (Inr schema, st1)
      | (Inl e, st1) \<Rightarrow>
          if isinstance e FileNotFoundError
          then (Inl e, logging_error (''Schema file not found: '' @ schema_file) st1)
          else if isinstance e JSONDecodeError
          then (Inl e, logging_error (''Error decoding JSON from '' @ schema_file) st1)
          else (Inl e, st1))"

subsection \<open>\<^verbatim>\<open>validate_policy\<close>\<close>

text \<open>
  Lines 144 to 149: the call of the external validator, an informational log line when it
  returns, and one handler, for \<^verbatim>\<open>ValidationError\<close> only, which logs and re-raises.
\<close>

definition validate_policy :: "env \<Rightarrow> pyval \<Rightarrow> pyval \<Rightarrow> state \<Rightarrow> (exn + unit) \<times> state" where
  "validate_policy E policy schema st =
     (let st1 = emit (Validated policy schema) st in
      case validate E policy schema of
        None \<Rightarrow> (Inr (), logging_info ''Policy validation successful.'' st1)
      | Some e \<Rightarrow>
          if isinstance e ValidationError
          then (Inl e, logging_error (''Policy validation failed: '' @ str_exn e) st1)
          else (Inl e, st1))"

subsection \<open>\<^verbatim>\<open>main\<close>\<close>

text \<open>
  The namespace returned by \<^verbatim>\<open>setup_argparse\<close>. The log level is one of the five names
  the parser admits; the format is kept a string, as \<^verbatim>\<open>load_policy\<close> takes it.
\<close>

record args =
  policy_file :: string
  schema_file :: string
  format :: string
  log_level :: log_level

text \<open>The \<^verbatim>\<open>try\<close> block of \<^verbatim>\<open>main\<close> (lines 162 to 165).\<close>

definition main_try :: "env \<Rightarrow> args \<Rightarrow> state \<Rightarrow> (exn + unit) \<times> state" where
  "main_try E a st =
     (case load_policy E (policy_file a) (format a) st of
        (Inl e, st1) \<Rightarrow> (Inl e, st1)
      | (Inr policy, st1) \<Rightarrow>
          (case load_schema E (schema_file a) st1 of
             (Inl e, st2) \<Rightarrow> (Inl e, st2)
           | (Inr schema, st2) \<Rightarrow>
               (case validate_policy E policy schema st2 of
                  (Inl e, st3) \<Rightarrow> (Inl e, st3)
                | (Inr u, st3) \<Rightarrow> (Inr (), print ''Policy validation successful.'' st3))))"

text \<open>
  The \<^verbatim>\<open>except\<close> clauses of \<^verbatim>\<open>main\<close> (lines 167 to 185), tried in the order written;
  the first whose class the exception is an instance of runs. Each ends in
  \<^verbatim>\<open>sys.exit(1)\<close>.
\<close>

definition main_except :: "exn \<Rightarrow> state \<Rightarrow> state" where
  "main_except e st =
     (if isinstance e FileNotFoundError
      then print ''One or more required files were not found.  See logs for details.'' st
      else if isinstance e ValueError
      then print ''Invalid input provided.  See logs for details.'' st
      else if isinstance e YAMLError
      then print ''Error parsing YAML. See logs for details.'' st
      else if isinstance e JSONDecodeError
      then print ''Error parsing JSON. See logs for details.'' st
      else if isinstance e ValidationError
      then print ''Policy validation failed. See logs for details.'' st
      else print ''An unexpected error occurred.  See logs for details.''
             (logging_error (''An unexpected error occurred: '' @ str_exn e) st))"

text \<open>
  \<^verbatim>\<open>main\<close> after the arguments are parsed: set the level, run the \<^verbatim>\<open>try\<close> block, and
  return the exit status of the process with everything the run did.
\<close>

definition main :: "env \<Rightarrow> args \<Rightarrow> int \<times> state" where
  "main E a =
     (case main_try E a (setLevel (log_level a) initial_state) of
        (Inr u, st) \<Rightarrow> (0, st)
      | (Inl e, st) \<Rightarrow> (1, main_except e st))"

text \<open>
  Observations of a trace: what the run printed, what it logged, and which calls of the
  outside world it made, each in order.
\<close>

fun printed :: "event list \<Rightarrow> string list" where
  "printed [] = []"
| "printed (Printed m # evs) = m # printed evs"
| "printed (ev # evs) = printed evs"

fun logged :: "event list \<Rightarrow> string list" where
  "logged [] = []"
| "logged (Logged l m # evs) = m # logged evs"
| "logged (ev # evs) = logged evs"

fun calls :: "event list \<Rightarrow> event list" where
  "calls [] = []"
| "calls (Logged l m # evs) = calls evs"
| "calls (Printed m # evs) = calls evs"
| "calls (ev # evs) = ev # calls evs"

text \<open>The paths opened and the validations run, in order.\<close>

fun opened :: "event list \<Rightarrow> string list" where
  "opened [] = []"
| "opened (Opened p # evs) = p # opened evs"
| "opened (ev # evs) = opened evs"

fun validations :: "event list \<Rightarrow> (pyval \<times> pyval) list" where
  "validations [] = []"
| "validations (Validated policy schema # evs) = (policy, schema) # validations evs"
| "validations (ev # evs) = validations evs"

subsection \<open>A sample of the outside world\<close>

text \<open>
  The general theorems below hold for every \<open>env\<close>. Their instances at concrete inputs
  need one: \<open>sample_env\<close> holds a few files, what the two parsers return on the texts of
  those files, and the validator on the schema keywords the sample schemas use. It is
  meant for the texts of \<open>sample_files\<close> only. These definitions describe the libraries
  at the sample inputs; they are no part of the program.
\<close>

definition tab :: string where
  "tab = [CHR 0x09]"

text \<open>A lone byte \<^verbatim>\<open>0xE9\<close>, which is not UTF-8: the file opens, and reading it fails.\<close>

definition undecodable :: file_obj where
  "undecodable = [CHR 0xE9]"

definition sample_files :: "(string \<times> file_obj) list" where
  \<open>sample_files =
     [(''alice.json'', ''{"name": "alice"}''),
      (''age.json'', ''{"age": 5}''),
      (''alice.yaml'', ''name: alice''),
      (''schema.json'',
         ''{"type": "object", "required": ["name"], "properties": {"name": {"type": "string"}}}''),
      (''bad_schema.json'', ''{"type": 5}''),
      (''ref_schema.json'', ''{"$ref": "http://[bad#x"}''),
      (''latin1.yaml'', undecodable),
      (''list.json'', ''[1, 2]''),
      (''null.json'', ''null''),
      (''empty.yaml'', []),
      (''broken.json'', ''{''),
      (''broken.yaml'', ''name: [alice''),
      (''tabbed.json'', ''{'' @ tab @ ''"a": 1}'')]\<close>

definition sample_open :: "string \<Rightarrow> exn + file_obj" where
  "sample_open p =
     (case map_of sample_files p of
        Some text \<Rightarrow> Inr text
      | None \<Rightarrow>
          Inl (Exn FileNotFoundError
                (''[Errno 2] No such file or directory: '' @ [CHR 0x27] @ p @ [CHR 0x27])))"

definition alice_policy :: pyval where
  "alice_policy = PDict [(PStr ''name'', PStr ''alice'')]"

definition age_policy :: pyval where
  "age_policy = PDict [(PStr ''age'', PInt 5)]"

definition name_schema :: pyval where
  "name_schema =
     PDict [(PStr ''type'', PStr ''object''),
            (PStr ''required'', PList [PStr ''name'']),
            (PStr ''properties'', PDict [(PStr ''name'', PDict [(PStr ''type'', PStr ''string'')])])]"

text \<open>
  What both parsers build from the sample texts that are JSON. The last text separates
  its tokens with a tab, which JSON allows.
\<close>

definition sample_json_texts :: "(file_obj \<times> pyval) list" where
  \<open>sample_json_texts =
     [(''{"name": "alice"}'', alice_policy),
      (''{"age": 5}'', age_policy),
      (''{"type": "object", "required": ["name"], "properties": {"name": {"type": "string"}}}'',
         name_schema),
      (''{"type": 5}'', PDict [(PStr ''type'', PInt 5)]),
      (''{"$ref": "http://[bad#x"}'', PDict [(PStr ''$ref'', PStr ''http://[bad#x'')]),
      (''[1, 2]'', PList [PInt 1, PInt 2]),
      (''null'', PNone),
      (''{'' @ tab @ ''"a": 1}'', PDict [(PStr ''a'', PInt 1)])]\<close>

text \<open>What reading the undecodable file raises, in either parser (message abridged).\<close>

definition decode_error :: exn where
  "decode_error = Exn UnicodeDecodeError ''utf-8 codec cannot decode byte 0xe9 in position 0''"

text \<open>\<^verbatim>\<open>json.load\<close> on the sample files: the other sample texts are not JSON.\<close>

definition sample_json_load :: "file_obj \<Rightarrow> exn + pyval" where
  "sample_json_load text =
     (if text = undecodable
      then Inl decode_error
      else (case map_of sample_json_texts text of
              Some v \<Rightarrow> Inr v
            | None \<Rightarrow>
                if text = ''{''
                then Inl (Exn JSONDecodeError
                       ''Expecting property name enclosed in double quotes: line 1 column 2 (char 1)'')
                else Inl (Exn JSONDecodeError ''Expecting value: line 1 column 1 (char 0)'')))"

text \<open>
  \<^verbatim>\<open>yaml.safe_load\<close> on the sample texts. The scanner of PyYAML skips blanks but not
  tabs before a token, so the tab-separated JSON text is rejected; the other JSON texts
  are flow-style YAML and load to the same values; an empty stream loads as \<^verbatim>\<open>None\<close>.
  The messages of the parse errors are abridged.
\<close>

definition sample_yaml_safe_load :: "file_obj \<Rightarrow> exn + pyval" where
  \<open>sample_yaml_safe_load text =
     (if text = undecodable
      then Inl decode_error
      else if text = ''{'' @ tab @ ''"a": 1}''
      then Inl (Exn YAMLError
             ''while scanning for the next token: found character that cannot start any token'')
      else if text = []
      then Inr PNone
      else if text = ''name: alice''
      then Inr alice_policy
      else (case map_of sample_json_texts text of
              Some v \<Rightarrow> Inr v
            | None \<Rightarrow>
                if text = ''name: [alice''
                then Inl (Exn YAMLError
                       ''while parsing a flow sequence: expected a comma or a closing bracket'')
                else Inl (Exn YAMLError
                       ''while parsing a flow node: expected the node content'')))\<close>

text \<open>
  \<^verbatim>\<open>jsonschema.validate\<close> on schemas built from the keywords \<^verbatim>\<open>type\<close>,
  \<^verbatim>\<open>required\<close> and \<^verbatim>\<open>properties\<close> (every other keyword is ignored here), and on
  instances without floats, and without quotes or escapes in their strings. \<open>py_repr\<close> is
  \<^verbatim>\<open>repr\<close>, which the messages of the validator use. Where several constraints are
  violated, the first in the order of the schema is the one reported.
\<close>

fun str_nat :: "nat \<Rightarrow> string" where
  "str_nat n =
     (if n < 10 then [''0123456789'' ! n] else str_nat (n div 10) @ [''0123456789'' ! (n mod 10)])"

definition str_int :: "int \<Rightarrow> string" where
  "str_int i = (if i < 0 then ''-'' @ str_nat (nat (- i)) else str_nat (nat i))"

text \<open>\<^verbatim>\<open>sep.join(parts)\<close>\<close>

fun join :: "string \<Rightarrow> string list \<Rightarrow> string" where
  "join sep [] = []"
| "join sep (x # xs) = x @ (if xs = [] then [] else sep @ join sep xs)"

fun py_repr :: "pyval \<Rightarrow> string" where
  "py_repr PNone = ''None''"
| "py_repr (PBool b) = (if b then ''True'' else ''False'')"
| "py_repr (PInt i) = str_int i"
| "py_repr (PFloat r) = r"
| "py_repr (PStr s) = [CHR 0x27] @ s @ [CHR 0x27]"
| "py_repr (PList vs) = ''['' @ join '', '' (map py_repr vs) @ '']''"
| "py_repr (PDict kvs) =
     ''{'' @ join '', '' (map (\<lambda>(k, v). py_repr k @ '': '' @ py_repr v) kvs) @ ''}''"

fun type_matches :: "pyval \<Rightarrow> string \<Rightarrow> bool" where
  "type_matches (PDict kvs) t = (t = ''object'')"
| "type_matches (PList vs) t = (t = ''array'')"
| "type_matches (PStr s) t = (t = ''string'')"
| "type_matches (PInt i) t = (t = ''integer'' \<or> t = ''number'')"
| "type_matches (PFloat r) t = (t = ''number'')"
| "type_matches (PBool b) t = (t = ''boolean'')"
| "type_matches PNone t = (t = ''null'')"

definition type_names :: "string list" where
  "type_names = [''array'', ''boolean'', ''integer'', ''null'', ''number'', ''object'', ''string'']"

fun the_str :: "pyval \<Rightarrow> string option" where
  "the_str (PStr s) = Some s"
| "the_str v = None"

text \<open>The names a \<^verbatim>\<open>type\<close> keyword lists (one name or an array of names), if it is well formed.\<close>

fun type_list :: "pyval \<Rightarrow> string list option" where
  "type_list (PStr t) = (if t \<in> set type_names then Some [t] else None)"
| "type_list (PList ts) =
     (if list_all (\<lambda>t. case the_str t of Some n \<Rightarrow> n \<in> set type_names | None \<Rightarrow> False) ts
      then Some (map (\<lambda>t. case the_str t of Some n \<Rightarrow> n | None \<Rightarrow> []) ts) else None)"
| "type_list v = None"

definition quoted_names :: "string list \<Rightarrow> string" where
  "quoted_names ts = join '', '' (map (\<lambda>t. [CHR 0x27] @ t @ [CHR 0x27]) ts)"

text \<open>
  \<^verbatim>\<open>check_schema\<close>: what is wrong with the schema itself, in the order of its keywords.
\<close>

fun schema_defects :: "pyval \<Rightarrow> string list"
and keyword_defects :: "(pyval \<times> pyval) list \<Rightarrow> string list"
and property_defects :: "(pyval \<times> pyval) list \<Rightarrow> string list" where
  "schema_defects (PDict kws) = keyword_defects kws"
| "schema_defects (PBool b) = []"
| "schema_defects s = [py_repr s @ '' is not of type '' @ quoted_names [''object'', ''boolean'']]"
| "keyword_defects [] = []"
| "keyword_defects ((k, v) # kws) =
     (if k = PStr ''type''
      then (if type_list v = None
            then [py_repr v @ '' is not valid under any of the given schemas''] else [])
      else if k = PStr ''required''
      then (case v of
              PList ns \<Rightarrow> concat (map (\<lambda>n. if the_str n = None
                                          then [py_repr n @ '' is not of type '' @ quoted_names [''string'']] else []) ns)
            | _ \<Rightarrow> [py_repr v @ '' is not of type '' @ quoted_names [''array'']])
      else if k = PStr ''properties''
      then (case v of
              PDict props \<Rightarrow> property_defects props
            | _ \<Rightarrow> [py_repr v @ '' is not of type '' @ quoted_names [''object'']])
      else []) @ keyword_defects kws"
| "property_defects [] = []"
| "property_defects ((k, sub) # props) = schema_defects sub @ property_defects props"

text \<open>The violations of a well-formed schema by an instance, in the order of its keywords.\<close>

fun schema_errors :: "pyval \<Rightarrow> pyval \<Rightarrow> string list"
and keyword_errors :: "(pyval \<times> pyval) list \<Rightarrow> pyval \<Rightarrow> string list"
and property_errors :: "(pyval \<times> pyval) list \<Rightarrow> pyval \<Rightarrow> string list" where
  "schema_errors (PDict kws) inst = keyword_errors kws inst"
| "schema_errors (PBool b) inst =
     (if b then [] else [''False schema does not allow '' @ py_repr inst])"
| "schema_errors s inst = []"
| "keyword_errors [] inst = []"
| "keyword_errors ((k, v) # kws) inst =
     (if k = PStr ''type''
      then (case type_list v of
              Some ts \<Rightarrow> if list_ex (type_matches inst) ts then []
                         else [py_repr inst @ '' is not of type '' @ quoted_names ts]
            | None \<Rightarrow> [])
      else if k = PStr ''required''
      then (case (v, inst) of
              (PList ns, PDict kvs) \<Rightarrow>
                concat (map (\<lambda>n. if map_of kvs n = None
                                 then [py_repr n @ '' is a required property''] else []) ns)
            | _ \<Rightarrow> [])
      else if k = PStr ''properties''
      then (case v of PDict props \<Rightarrow> property_errors props inst | _ \<Rightarrow> [])
      else []) @ keyword_errors kws inst"
| "property_errors [] inst = []"
| "property_errors ((k, sub) # props) inst =
     (case inst of
        PDict kvs \<Rightarrow> (case map_of kvs k of Some v \<Rightarrow> schema_errors sub v | None \<Rightarrow> [])
      | _ \<Rightarrow> []) @ property_errors props inst"

text \<open>
  A \<^verbatim>\<open>$ref\<close> is looked at for one failure only. Resolving a reference that has a
  fragment splits its URL with \<^verbatim>\<open>urllib.parse\<close>, which raises
  \<^verbatim>\<open>ValueError("Invalid IPv6 URL")\<close> when the URL has an opening bracket and no closing
  one; the validator does not catch it.
\<close>

definition ref_failure :: "pyval \<Rightarrow> exn option" where
  "ref_failure schema =
     (case schema of
        PDict kws \<Rightarrow>
          (case map_of kws (PStr ''$ref'') of
             Some (PStr url) \<Rightarrow>
               if CHR ''#'' \<in> set url \<and> CHR ''['' \<in> set url \<and> CHR '']'' \<notin> set url
               then Some (Exn ValueError ''Invalid IPv6 URL'') else None
           | _ \<Rightarrow> None)
      | _ \<Rightarrow> None)"

text \<open>
  The call itself: a schema that is not well formed raises \<^verbatim>\<open>SchemaError\<close> before the
  instance is looked at; otherwise the first violation, if any, is raised as a
  \<^verbatim>\<open>ValidationError\<close> carrying its message.
\<close>

definition sample_validate :: "pyval \<Rightarrow> pyval \<Rightarrow> exn option" where
  "sample_validate inst schema =
     (case schema_defects schema of
        d # ds \<Rightarrow> Some (Exn SchemaError d)
      | [] \<Rightarrow>
          (case ref_failure schema of
             Some e \<Rightarrow> Some e
           | None \<Rightarrow>
               (case schema_errors schema inst of
                  [] \<Rightarrow> None
                | m # ms \<Rightarrow> Some (Exn ValidationError m))))"

definition sample_env :: env where
  "sample_env =
     \<lparr>open_file = sample_open,
      yaml_safe_load = sample_yaml_safe_load,
      json_load = sample_json_load,
      validate = sample_validate\<rparr>"

text \<open>Command lines over the sample files.\<close>

definition alice_args :: args where
  "alice_args = \<lparr>policy_file = ''alice.yaml'', schema_file = ''schema.json'',
                   format = ''yaml'', log_level = INFO\<rparr>"

definition missing_args :: args where
  "missing_args = \<lparr>policy_file = ''missing.yaml'', schema_file = ''schema.json'',
                     format = ''yaml'', log_level = INFO\<rparr>"

definition broken_schema_args :: args where
  "broken_schema_args = \<lparr>policy_file = ''alice.yaml'', schema_file = ''broken.json'',
                           format = ''yaml'', log_level = INFO\<rparr>"

definition broken_json_args :: args where
  "broken_json_args = \<lparr>policy_file = ''broken.json'', schema_file = ''schema.json'',
                         format = ''json'', log_level = INFO\<rparr>"

definition empty_yaml_args :: args where
  "empty_yaml_args = \<lparr>policy_file = ''empty.yaml'', schema_file = ''schema.json'',
                        format = ''yaml'', log_level = INFO\<rparr>"

definition null_json_args :: args where
  "null_json_args = \<lparr>policy_file = ''null.json'', schema_file = ''schema.json'',
                       format = ''json'', log_level = INFO\<rparr>"



section \<open>Properties\<close>

subsection \<open>Auxiliary facts\<close>

lemmas program_defs =
  load_policy_def load_policy_try_def parse_policy_def load_schema_def load_schema_try_def
  validate_policy_def main_def main_try_def main_except_def logging_error_def logging_info_def
  logging_log_def print_def initial_state_def setLevel_def Let_def

lemmas sample_defs =
  sample_env_def sample_open_def sample_files_def sample_json_load_def sample_yaml_safe_load_def
  sample_json_texts_def tab_def undecodable_def decode_error_def

lemma isinstance_Exn [simp]: "isinstance (Exn c m) d = (d \<in> set (mro c))"
  by (simp add: isinstance_def)

text \<open>The four classes that have no modelled subclass: an instance is of the class itself.\<close>

lemma isinstance_YAMLError: "isinstance e YAMLError \<Longrightarrow> exn_cls e = YAMLError"
  by (cases e; cases "exn_cls e") simp_all

lemma isinstance_JSONDecodeError: "isinstance e JSONDecodeError \<Longrightarrow> exn_cls e = JSONDecodeError"
  by (cases e; cases "exn_cls e") simp_all

lemma isinstance_ValidationError: "isinstance e ValidationError \<Longrightarrow> exn_cls e = ValidationError"
  by (cases e; cases "exn_cls e") simp_all

lemma isinstance_FileNotFoundError:
  "isinstance e FileNotFoundError \<Longrightarrow> exn_cls e = FileNotFoundError"
  by (cases e; cases "exn_cls e") simp_all

text \<open>A \<^verbatim>\<open>JSONDecodeError\<close> is a \<^verbatim>\<open>ValueError\<close>, so a handler for the latter takes it.\<close>

lemma JSONDecodeError_is_ValueError: "isinstance e JSONDecodeError \<Longrightarrow> isinstance e ValueError"
  by (cases e; cases "exn_cls e") simp_all

lemma trace_emit [simp]: "trace (emit ev st) = trace st @ [ev]"
  by (simp add: emit_def)

lemma level_emit [simp]: "level (emit ev st) = level st"
  by (simp add: emit_def)

lemma calls_append [simp]: "calls (xs @ ys) = calls xs @ calls ys"
  by (induction xs rule: calls.induct) simp_all

lemma printed_append [simp]: "printed (xs @ ys) = printed xs @ printed ys"
  by (induction xs rule: printed.induct) simp_all

lemma logged_append [simp]: "logged (xs @ ys) = logged xs @ logged ys"
  by (induction xs rule: logged.induct) simp_all

lemma opened_append [simp]: "opened (xs @ ys) = opened xs @ opened ys"
  by (induction xs rule: opened.induct) simp_all

lemma validations_append [simp]: "validations (xs @ ys) = validations xs @ validations ys"
  by (induction xs rule: validations.induct) simp_all

subsection \<open>The policy loader\<close>

text \<open>
  Claim C2. When the file can be read and the parser chosen by the format builds a value
  from its text, \<^verbatim>\<open>load_policy\<close> returns exactly that value if it is a dictionary, and
  otherwise fails with the \<^verbatim>\<open>ValueError\<close> that says the policy file must contain a
  dictionary (the error of the wrong root shape), whatever the value is: a list, a string,
  a number.
\<close>

theorem load_policy_returns_parsed_mapping:
  assumes "open_file E p = Inr text"
    and "(fmt = ''yaml'' \<and> yaml_safe_load E text = Inr v) \<or>
         (fmt = ''json'' \<and> json_load E text = Inr v)"
  shows "fst (load_policy E p fmt st) =
           (if is_dict v then Inr v
            else Inl (Exn ValueError ''Policy file must contain a dictionary.''))"
  using assms
  by (auto simp add: load_policy_def load_policy_try_def parse_policy_def Let_def
           split: sum.splits prod.splits)

theorem load_policy_returns_parsed_mapping_witness:
  "fst (load_policy sample_env ''alice.json'' ''json'' initial_state) = Inr alice_policy \<and>
   fst (load_policy sample_env ''alice.yaml'' ''yaml'' initial_state) = Inr alice_policy \<and>
   fst (load_policy sample_env ''list.json'' ''json'' initial_state) =
     Inl (Exn ValueError ''Policy file must contain a dictionary.'')"
  using load_policy_returns_parsed_mapping
          [of sample_env "''alice.json''" _ "''json''" alice_policy initial_state]
        load_policy_returns_parsed_mapping
          [of sample_env "''alice.yaml''" _ "''yaml''" alice_policy initial_state]
        load_policy_returns_parsed_mapping
          [of sample_env "''list.json''" _ "''json''" "PList [PInt 1, PInt 2]" initial_state]
  by (simp add: sample_defs alice_policy_def)

text \<open>
  Claim C4, as the code has it. The file is opened before the format is looked at, and it
  is not read unless a parser is called. So when the file cannot be opened,
  \<^verbatim>\<open>load_policy\<close> fails with the error of opening it (\<^verbatim>\<open>FileNotFoundError\<close> for a
  missing file), whatever the format; and when it can be opened and the format is neither
  \<^verbatim>\<open>yaml\<close> nor \<^verbatim>\<open>json\<close>, \<^verbatim>\<open>load_policy\<close> fails with the \<^verbatim>\<open>ValueError\<close> of the
  invalid format, whatever the file holds.
\<close>

theorem load_policy_invalid_format:
  "(\<forall>e. open_file E p = Inl e \<longrightarrow> fst (load_policy E p fmt st) = Inl e) \<and>
   (fmt \<noteq> ''yaml'' \<and> fmt \<noteq> ''json'' \<longrightarrow>
      (\<forall>f. open_file E p = Inr f \<longrightarrow>
         fst (load_policy E p fmt st) =
           Inl (Exn ValueError ''Invalid format. Must be 'yaml' or 'json'.'')))"
  by (simp add: load_policy_def load_policy_try_def parse_policy_def Let_def
           split: sum.splits prod.splits)

theorem load_policy_invalid_format_witness:
  \<open>fst (load_policy sample_env ''missing.yaml'' ''yaml'' initial_state) =
     Inl (Exn FileNotFoundError
           (''[Errno 2] No such file or directory: '' @ [CHR 0x27] @ ''missing.yaml'' @ [CHR 0x27])) \<and>
   fst (load_policy sample_env ''missing.yaml'' ''xml'' initial_state) =
     Inl (Exn FileNotFoundError
           (''[Errno 2] No such file or directory: '' @ [CHR 0x27] @ ''missing.yaml'' @ [CHR 0x27])) \<and>
   fst (load_policy sample_env ''alice.json'' ''xml'' initial_state) =
     Inl (Exn ValueError ''Invalid format. Must be 'yaml' or 'json'.'') \<and>
   fst (load_policy sample_env ''latin1.yaml'' ''xml'' initial_state) =
     Inl (Exn ValueError ''Invalid format. Must be 'yaml' or 'json'.'') \<and>
   fst (load_policy sample_env ''latin1.yaml'' ''yaml'' initial_state) = Inl decode_error\<close>
proof -
  have missing: "open_file sample_env ''missing.yaml'' =
      Inl (Exn FileNotFoundError
            (''[Errno 2] No such file or directory: '' @ [CHR 0x27] @ ''missing.yaml'' @ [CHR 0x27]))"
    by (simp add: sample_defs)
  have alice: "\<exists>f. open_file sample_env ''alice.json'' = Inr f"
    by (simp add: sample_defs)
  have latin: "open_file sample_env ''latin1.yaml'' = Inr undecodable"
    by (simp add: sample_env_def sample_open_def sample_files_def)
  have xml: "''xml'' \<noteq> ''yaml'' \<and> ''xml'' \<noteq> ''json''"
    by simp
  have read: "fst (load_policy sample_env ''latin1.yaml'' ''yaml'' initial_state) = Inl decode_error"
    by (simp add: sample_defs program_defs)
  from missing alice latin xml read
    load_policy_invalid_format [of sample_env "''missing.yaml''" "''yaml''" initial_state]
    load_policy_invalid_format [of sample_env "''missing.yaml''" "''xml''" initial_state]
    load_policy_invalid_format [of sample_env "''alice.json''" "''xml''" initial_state]
    load_policy_invalid_format [of sample_env "''latin1.yaml''" "''xml''" initial_state]
  show ?thesis by auto
qed

text \<open>
  Claim C4 as stated, for every path, fails at a path that does not exist: the error is
  the \<^verbatim>\<open>FileNotFoundError\<close> of \<^verbatim>\<open>open\<close>, which is not a \<^verbatim>\<open>ValueError\<close>.
\<close>

theorem load_policy_invalid_format_missing_file:
  "''xml'' \<noteq> ''yaml'' \<and> ''xml'' \<noteq> ''json'' \<and>
   fst (load_policy sample_env ''missing.json'' ''xml'' initial_state) =
     Inl (Exn FileNotFoundError
           (''[Errno 2] No such file or directory: '' @ [CHR 0x27] @ ''missing.json'' @ [CHR 0x27])) \<and>
   \<not> isinstance
        (Exn FileNotFoundError
           (''[Errno 2] No such file or directory: '' @ [CHR 0x27] @ ''missing.json'' @ [CHR 0x27]))
        ValueError"
  by (simp add: sample_defs program_defs)

text \<open>
  Claim C6, as the code has it. When the file can be read and \<^verbatim>\<open>yaml.safe_load\<close> raises a
  \<^verbatim>\<open>YAMLError\<close> on its text, \<^verbatim>\<open>load_policy\<close> with format \<^verbatim>\<open>yaml\<close> logs the error
  once and fails with it. With format \<^verbatim>\<open>json\<close> the same file is judged by
  \<^verbatim>\<open>json.load\<close> alone: the call fails exactly when that parser raises or the value it
  builds is not a dictionary.
\<close>

theorem load_policy_yaml_parse_error:
  assumes "open_file E p = Inr text"
    and "yaml_safe_load E text = Inl e" and "isinstance e YAMLError"
  shows "load_policy E p ''yaml'' st =
           (Inl e, logging_error (''Error parsing YAML file: '' @ str_exn e)
                     (emit (YamlParsed text) (emit (Opened p) st))) \<and>
         fst (load_policy E p ''json'' st) =
           (case json_load E text of
              Inl e' \<Rightarrow> Inl e'
            | Inr v \<Rightarrow> if is_dict v then Inr v
                       else Inl (Exn ValueError ''Policy file must contain a dictionary.''))"
proof -
  from assms(3) have "exn_cls e = YAMLError"
    by (rule isinstance_YAMLError)
  then have unhandled: "\<not> isinstance e FileNotFoundError" "\<not> isinstance e ValueError"
    by (simp_all add: isinstance_def)
  have yaml: "load_policy E p ''yaml'' st =
           (Inl e, logging_error (''Error parsing YAML file: '' @ str_exn e)
                     (emit (YamlParsed text) (emit (Opened p) st)))"
    using assms unhandled
    by (simp add: load_policy_def load_policy_try_def parse_policy_def Let_def)
  have json: "fst (load_policy E p ''json'' st) =
           (case json_load E text of
              Inl e' \<Rightarrow> Inl e'
            | Inr v \<Rightarrow> if is_dict v then Inr v
                       else Inl (Exn ValueError ''Policy file must contain a dictionary.''))"
    using assms(1)
    by (simp add: load_policy_def load_policy_try_def parse_policy_def Let_def split: sum.splits)
  from yaml json show ?thesis by simp
qed

theorem load_policy_yaml_parse_error_witness:
  "fst (load_policy sample_env ''broken.yaml'' ''yaml'' initial_state) =
     Inl (Exn YAMLError
           ''while parsing a flow sequence: expected a comma or a closing bracket'') \<and>
   logged (trace (snd (load_policy sample_env ''broken.yaml'' ''yaml'' initial_state))) =
     [''Error parsing YAML file: while parsing a flow sequence: expected a comma or a closing bracket''] \<and>
   fst (load_policy sample_env ''broken.yaml'' ''json'' initial_state) =
     Inl (Exn JSONDecodeError ''Expecting value: line 1 column 1 (char 0)'')"
  using load_policy_yaml_parse_error
          [of sample_env "''broken.yaml''" "''name: [alice''"
              "Exn YAMLError
                 ''while parsing a flow sequence: expected a comma or a closing bracket''"
              initial_state]
  by (simp add: sample_defs logging_error_def logging_log_def initial_state_def)

text \<open>
  Claim C6 as stated fails at the file \<^verbatim>\<open>tabbed.json\<close>, whose text is JSON with a tab
  between its tokens: the YAML parser rejects it, and the same file loads with format
  \<^verbatim>\<open>json\<close>.
\<close>

theorem load_policy_invalid_yaml_valid_json:
  "fst (load_policy sample_env ''tabbed.json'' ''yaml'' initial_state) =
     Inl (Exn YAMLError
           ''while scanning for the next token: found character that cannot start any token'') \<and>
   fst (load_policy sample_env ''tabbed.json'' ''json'' initial_state) =
     Inr (PDict [(PStr ''a'', PInt 1)])"
  by (simp add: sample_defs program_defs)

subsection \<open>The schema loader\<close>

text \<open>
  Claim C8. When the file can be read and \<^verbatim>\<open>json.load\<close> builds a value from its text,
  \<^verbatim>\<open>load_schema\<close> returns that value and logs nothing, whatever its shape; where the
  value is not a dictionary, \<^verbatim>\<open>load_policy\<close> on the same file with format \<^verbatim>\<open>json\<close>
  fails with the \<^verbatim>\<open>ValueError\<close> of the wrong root shape.
\<close>

theorem load_schema_returns_any_root:
  assumes "open_file E p = Inr text" and "json_load E text = Inr v"
  shows "load_schema E p st = (Inr v, emit (JsonParsed text) (emit (Opened p) st)) \<and>
         (\<not> is_dict v \<longrightarrow>
            fst (load_policy E p ''json'' st) =
              Inl (Exn ValueError ''Policy file must contain a dictionary.''))"
  using assms
  by (simp add: load_schema_def load_schema_try_def load_policy_def load_policy_try_def
        parse_policy_def Let_def)

theorem load_schema_returns_any_root_witness:
  "fst (load_schema sample_env ''list.json'' initial_state) = Inr (PList [PInt 1, PInt 2]) \<and>
   \<not> is_dict (PList [PInt 1, PInt 2]) \<and>
   fst (load_policy sample_env ''list.json'' ''json'' initial_state) =
     Inl (Exn ValueError ''Policy file must contain a dictionary.'')"
  using load_schema_returns_any_root
          [of sample_env "''list.json''" "''[1, 2]''" "PList [PInt 1, PInt 2]" initial_state]
  by (simp add: sample_defs)

subsection \<open>The validator\<close>

text \<open>
  \<^verbatim>\<open>validate_policy\<close> adds nothing to the verdict of the validator it calls: it returns
  when the validator returns and fails with what the validator raised. What it means for a
  policy to satisfy a schema is decided inside \<^verbatim>\<open>jsonschema\<close>, outside this program.
\<close>

lemma validate_policy_relays:
  "fst (validate_policy E policy schema st) =
     (case validate E policy schema of None \<Rightarrow> Inr () | Some e \<Rightarrow> Inl e)"
  by (simp add: validate_policy_def Let_def split: option.splits)

subsection \<open>Auxiliary facts about the effects\<close>

lemma trace_logging_log:
  "trace (logging_log lvl msg st) =
     trace st @ (if level_no (level st) \<le> level_no lvl then [Logged lvl msg] else [])"
  by (simp add: logging_log_def)

lemma level_logging_log [simp]: "level (logging_log lvl msg st) = level st"
  by (simp add: logging_log_def)

lemma observe_logging_log [simp]:
  "calls (trace (logging_log lvl msg st)) = calls (trace st)"
  "printed (trace (logging_log lvl msg st)) = printed (trace st)"
  "opened (trace (logging_log lvl msg st)) = opened (trace st)"
  "validations (trace (logging_log lvl msg st)) = validations (trace st)"
  by (simp_all add: trace_logging_log)

lemma observe_print [simp]:
  "calls (trace (print msg st)) = calls (trace st)"
  "printed (trace (print msg st)) = printed (trace st) @ [msg]"
  "opened (trace (print msg st)) = opened (trace st)"
  "validations (trace (print msg st)) = validations (trace st)"
  "level (print msg st) = level st"
  by (simp_all add: print_def)

lemma observe_load_policy:
  "printed (trace (snd (load_policy E p fmt st))) = printed (trace st)"
  "opened (trace (snd (load_policy E p fmt st))) = opened (trace st) @ [p]"
  "validations (trace (snd (load_policy E p fmt st))) = validations (trace st)"
  "level (snd (load_policy E p fmt st)) = level st"
  by (simp_all add: load_policy_def load_policy_try_def parse_policy_def logging_error_def Let_def
        split: sum.splits prod.splits)

lemma observe_load_schema:
  "printed (trace (snd (load_schema E p st))) = printed (trace st)"
  "opened (trace (snd (load_schema E p st))) = opened (trace st) @ [p]"
  "validations (trace (snd (load_schema E p st))) = validations (trace st)"
  "level (snd (load_schema E p st)) = level st"
  by (simp_all add: load_schema_def load_schema_try_def logging_error_def Let_def
        split: sum.splits prod.splits)

lemma observe_validate_policy:
  "printed (trace (snd (validate_policy E policy schema st))) = printed (trace st)"
  "opened (trace (snd (validate_policy E policy schema st))) = opened (trace st)"
  "validations (trace (snd (validate_policy E policy schema st))) =
     validations (trace st) @ [(policy, schema)]"
  by (simp_all add: validate_policy_def logging_error_def logging_info_def Let_def
        split: option.splits)

lemma observe_main_except:
  "calls (trace (main_except e st)) = calls (trace st)"
  "opened (trace (main_except e st)) = opened (trace st)"
  "validations (trace (main_except e st)) = validations (trace st)"
  by (simp_all add: main_except_def logging_error_def)

text \<open>The outcome of the \<^verbatim>\<open>try\<close> block of \<open>main\<close>, stage by stage.\<close>

lemma main_try_policy_fails:
  assumes "load_policy E (policy_file a) (format a) st = (Inl e, st1)"
  shows "main_try E a st = (Inl e, st1)"
  using assms by (simp add: main_try_def)

lemma main_try_schema_fails:
  assumes "load_policy E (policy_file a) (format a) st = (Inr policy, st1)"
    and "load_schema E (schema_file a) st1 = (Inl e, st2)"
  shows "main_try E a st = (Inl e, st2)"
  using assms by (simp add: main_try_def)


lemma main_try_succeeds:
  assumes "load_policy E (policy_file a) (format a) st = (Inr policy, st1)"
    and "load_schema E (schema_file a) st1 = (Inr schema, st2)"
    and "validate_policy E policy schema st2 = (Inr (), st3)"
  shows "main_try E a st = (Inr (), print ''Policy validation successful.'' st3)"
  using assms by (simp add: main_try_def)


lemma observe_setLevel [simp]:
  "trace (setLevel l st) = trace st" "level (setLevel l st) = l"
  by (simp_all add: setLevel_def)

lemma trace_initial_state [simp]: "trace initial_state = []"
  by (simp add: initial_state_def)

lemma calls_load_policy_ok:
  assumes "load_policy E p fmt st = (Inr policy, st1)"
  shows "\<exists>text. open_file E p = Inr text \<and>
           calls (trace st1) =
             calls (trace st) @
             [Opened p, if fmt = ''yaml'' then YamlParsed text else JsonParsed text]"
  using assms
  by (auto simp add: load_policy_def load_policy_try_def parse_policy_def Let_def
        split: sum.splits prod.splits if_splits)

lemma calls_load_schema_ok:
  assumes "load_schema E p st = (Inr schema, st1)"
  shows "\<exists>text. open_file E p = Inr text \<and>
           calls (trace st1) = calls (trace st) @ [Opened p, JsonParsed text]"
  using assms
  by (auto simp add: load_schema_def load_schema_try_def Let_def
        split: sum.splits prod.splits if_splits)

lemma calls_validate_policy:
  "calls (trace (snd (validate_policy E policy schema st))) =
     calls (trace st) @ [Validated policy schema]"
  by (simp add: validate_policy_def logging_error_def logging_info_def Let_def
        split: option.splits)

subsection \<open>The driver\<close>

text \<open>
  Claim C5. \<^verbatim>\<open>main\<close> loads the policy, then the schema, then validates, and stops at the
  first failure. If \<^verbatim>\<open>load_policy\<close> fails, the run makes no call beyond those
  \<^verbatim>\<open>load_policy\<close> made: the policy file is the only file opened and the validator is not
  called. If \<^verbatim>\<open>load_schema\<close> fails, the two files were opened in that order and the
  validator is not called. If both succeed, the calls of the run are, in order: open the
  policy file, parse its text, open the schema file, parse its text, validate the policy
  against the schema.
\<close>

theorem main_short_circuits:
  "(\<forall>e st1.
      load_policy E (policy_file a) (format a) (setLevel (log_level a) initial_state) = (Inl e, st1) \<longrightarrow>
      calls (trace (snd (main E a))) = calls (trace st1) \<and>
      opened (trace (snd (main E a))) = [policy_file a] \<and>
      validations (trace (snd (main E a))) = []) \<and>
   (\<forall>policy st1 e st2.
      load_policy E (policy_file a) (format a) (setLevel (log_level a) initial_state) = (Inr policy, st1) \<and>
      load_schema E (schema_file a) st1 = (Inl e, st2) \<longrightarrow>
      calls (trace (snd (main E a))) = calls (trace st2) \<and>
      opened (trace (snd (main E a))) = [policy_file a, schema_file a] \<and>
      validations (trace (snd (main E a))) = []) \<and>
   (\<forall>policy st1 schema st2.
      load_policy E (policy_file a) (format a) (setLevel (log_level a) initial_state) = (Inr policy, st1) \<and>
      load_schema E (schema_file a) st1 = (Inr schema, st2) \<longrightarrow>
      (\<exists>ptext stext.
         open_file E (policy_file a) = Inr ptext \<and> open_file E (schema_file a) = Inr stext \<and>
         calls (trace (snd (main E a))) =
           [Opened (policy_file a),
            if format a = ''yaml'' then YamlParsed ptext else JsonParsed ptext,
            Opened (schema_file a), JsonParsed stext, Validated policy schema]))"
proof (intro conjI allI impI)
  fix e st1
  assume p: "load_policy E (policy_file a) (format a) (setLevel (log_level a) initial_state) = (Inl e, st1)"
  then have m: "main E a = (1, main_except e st1)"
    by (simp add: main_def main_try_policy_fails)
  have "st1 = snd (load_policy E (policy_file a) (format a) (setLevel (log_level a) initial_state))"
    using p by simp
  then have "opened (trace st1) = [policy_file a]" "validations (trace st1) = []"
    by (simp_all add: observe_load_policy)
  then show "calls (trace (snd (main E a))) = calls (trace st1)"
    and "opened (trace (snd (main E a))) = [policy_file a]"
    and "validations (trace (snd (main E a))) = []"
    by (simp_all add: m observe_main_except)
next
  fix policy st1 e st2
  assume ps: "load_policy E (policy_file a) (format a) (setLevel (log_level a) initial_state) = (Inr policy, st1) \<and>
              load_schema E (schema_file a) st1 = (Inl e, st2)"
  then have m: "main E a = (1, main_except e st2)"
    by (simp add: main_def main_try_schema_fails)
  have st1: "st1 = snd (load_policy E (policy_file a) (format a) (setLevel (log_level a) initial_state))"
    and st2: "st2 = snd (load_schema E (schema_file a) st1)"
    using ps by simp_all
  have "opened (trace st1) = [policy_file a]" "validations (trace st1) = []"
    by (simp_all add: st1 observe_load_policy)
  then have "opened (trace st2) = [policy_file a, schema_file a]" "validations (trace st2) = []"
    by (simp_all add: st2 observe_load_schema)
  then show "calls (trace (snd (main E a))) = calls (trace st2)"
    and "opened (trace (snd (main E a))) = [policy_file a, schema_file a]"
    and "validations (trace (snd (main E a))) = []"
    by (simp_all add: m observe_main_except)
next
  fix policy st1 schema st2
  assume ps: "load_policy E (policy_file a) (format a) (setLevel (log_level a) initial_state) = (Inr policy, st1) \<and>
              load_schema E (schema_file a) st1 = (Inr schema, st2)"
  from ps obtain ptext where o1: "open_file E (policy_file a) = Inr ptext" and c1: "calls (trace st1) =
      [Opened (policy_file a), if format a = ''yaml'' then YamlParsed ptext else JsonParsed ptext]"
    using calls_load_policy_ok
            [of E "policy_file a" "format a" "setLevel (log_level a) initial_state" policy st1]
    by auto
  from ps obtain stext where o2: "open_file E (schema_file a) = Inr stext" and c2: "calls (trace st2) =
      calls (trace st1) @ [Opened (schema_file a), JsonParsed stext]"
    using calls_load_schema_ok [of E "schema_file a" st1 schema st2] by auto
  obtain r st3 where v: "validate_policy E policy schema st2 = (r, st3)"
    by (cases "validate_policy E policy schema st2")
  then have "st3 = snd (validate_policy E policy schema st2)"
    by simp
  then have c3: "calls (trace st3) = calls (trace st2) @ [Validated policy schema]"
    by (simp add: calls_validate_policy)
  have "snd (main E a) = (case r of Inl e \<Rightarrow> main_except e st3
                           | Inr u \<Rightarrow> print ''Policy validation successful.'' st3)"
    using ps v by (simp add: main_def main_try_def split: sum.splits)
  then have "calls (trace (snd (main E a))) = calls (trace st3)"
    by (simp add: observe_main_except split: sum.splits)
  with o1 o2 c1 c2 c3 show "\<exists>ptext stext.
         open_file E (policy_file a) = Inr ptext \<and> open_file E (schema_file a) = Inr stext \<and>
         calls (trace (snd (main E a))) =
           [Opened (policy_file a),
            if format a = ''yaml'' then YamlParsed ptext else JsonParsed ptext,
            Opened (schema_file a), JsonParsed stext, Validated policy schema]"
    by auto
qed

theorem main_short_circuits_witness:
  "opened (trace (snd (main sample_env missing_args))) = [''missing.yaml''] \<and>
   validations (trace (snd (main sample_env missing_args))) = [] \<and>
   opened (trace (snd (main sample_env broken_schema_args))) = [''alice.yaml'', ''broken.json''] \<and>
   validations (trace (snd (main sample_env broken_schema_args))) = [] \<and>
   (\<exists>stext. calls (trace (snd (main sample_env alice_args))) =
      [Opened ''alice.yaml'', YamlParsed ''name: alice'', Opened ''schema.json'', JsonParsed stext,
       Validated alice_policy name_schema])"
proof -
  have missing: "\<exists>e st1. load_policy sample_env ''missing.yaml'' ''yaml'' (setLevel INFO initial_state) =
                   (Inl e, st1)"
    by (simp add: sample_defs program_defs)
  have alice: "\<exists>st1. load_policy sample_env ''alice.yaml'' ''yaml'' (setLevel INFO initial_state) =
                   (Inr alice_policy, st1) \<and>
                 (\<exists>e st2. load_schema sample_env ''broken.json'' st1 = (Inl e, st2)) \<and>
                 (\<exists>st2. load_schema sample_env ''schema.json'' st1 = (Inr name_schema, st2))"
    by (simp add: sample_defs program_defs alice_policy_def)
  from missing main_short_circuits [of sample_env missing_args]
  have 1: "opened (trace (snd (main sample_env missing_args))) = [''missing.yaml''] \<and>
           validations (trace (snd (main sample_env missing_args))) = []"
    by (auto simp add: missing_args_def)
  from alice main_short_circuits [of sample_env broken_schema_args]
  have 2: "opened (trace (snd (main sample_env broken_schema_args))) =
             [''alice.yaml'', ''broken.json''] \<and>
           validations (trace (snd (main sample_env broken_schema_args))) = []"
    by (auto simp add: broken_schema_args_def)
  from alice main_short_circuits [of sample_env alice_args]
  have 3: "\<exists>stext. calls (trace (snd (main sample_env alice_args))) =
      [Opened ''alice.yaml'', YamlParsed ''name: alice'', Opened ''schema.json'', JsonParsed stext,
       Validated alice_policy name_schema]"
    by (auto simp add: alice_args_def sample_defs)
  from 1 2 3 show ?thesis by simp
qed


text \<open>The exit status is 0 exactly when the \<^verbatim>\<open>try\<close> block ran to its end, and 1 otherwise.\<close>

lemma main_exit_status:
  "fst (main E a) =
     (case fst (main_try E a (setLevel (log_level a) initial_state)) of Inr u \<Rightarrow> 0 | Inl e \<Rightarrow> 1)"
  by (simp add: main_def split: prod.splits sum.splits)

lemma printed_main_try:
  "printed (trace (snd (main_try E a st))) =
     printed (trace st) @
     (case fst (main_try E a st) of Inr u \<Rightarrow> [''Policy validation successful.''] | Inl e \<Rightarrow> [])"
proof -
  obtain r1 st1 where 1: "load_policy E (policy_file a) (format a) st = (r1, st1)"
    by (cases "load_policy E (policy_file a) (format a) st")
  then have p1: "printed (trace st1) = printed (trace st)"
    using observe_load_policy(1) [of E "policy_file a" "format a" st] by simp
  show ?thesis
  proof (cases r1)
    case (Inl e)
    with 1 p1 show ?thesis by (simp add: main_try_def)
  next
    case (Inr policy)
    obtain r2 st2 where 2: "load_schema E (schema_file a) st1 = (r2, st2)"
      by (cases "load_schema E (schema_file a) st1")
    then have p2: "printed (trace st2) = printed (trace st)"
      using observe_load_schema(1) [of E "schema_file a" st1] p1 by simp
    show ?thesis
    proof (cases r2)
      case (Inl e)
      with 1 2 p2 Inr show ?thesis by (simp add: main_try_def)
    next
      case schema: (Inr schema)
      obtain r3 st3 where 3: "validate_policy E policy schema st2 = (r3, st3)"
        by (cases "validate_policy E policy schema st2")
      then have p3: "printed (trace st3) = printed (trace st)"
        using observe_validate_policy(1) [of E policy schema st2] p2 by simp
      with 1 2 3 Inr schema show ?thesis
        by (cases r3) (simp_all add: main_try_def)
    qed
  qed
qed

text \<open>
  The handler for \<^verbatim>\<open>json.JSONDecodeError\<close> in \<open>main\<close> never runs: the handler for
  \<^verbatim>\<open>ValueError\<close> stands before it and takes every \<^verbatim>\<open>JSONDecodeError\<close>.
\<close>

lemma main_never_prints_json_message:
  "''Error parsing JSON. See logs for details.'' \<notin> set (printed (trace (snd (main E a))))"
proof -
  obtain r st where t: "main_try E a (setLevel (log_level a) initial_state) = (r, st)"
    by (cases "main_try E a (setLevel (log_level a) initial_state)")
  then have p: "printed (trace st) =
      (case r of Inr u \<Rightarrow> [''Policy validation successful.''] | Inl e \<Rightarrow> [])"
    using printed_main_try [of E a "setLevel (log_level a) initial_state"] by simp
  show ?thesis
  proof (cases r)
    case (Inr u)
    with t p show ?thesis by (simp add: main_def)
  next
    case (Inl e)
    with t p show ?thesis
      using JSONDecodeError_is_ValueError [of e]
      by (auto simp add: main_def main_except_def logging_error_def)
  qed
qed

text \<open>
  Whenever the policy file can be read, the format is \<^verbatim>\<open>json\<close> and \<^verbatim>\<open>json.load\<close>
  raises a \<^verbatim>\<open>JSONDecodeError\<close>, the run prints the invalid-input message.
\<close>

lemma main_json_decode_error:
  assumes "open_file E (policy_file a) = Inr text" and "format a = ''json''"
    and "json_load E text = Inl e" and "isinstance e JSONDecodeError"
  shows "fst (main E a) = 1 \<and>
         printed (trace (snd (main E a))) = [''Invalid input provided.  See logs for details.'']"
proof -
  from assms(4) have v: "isinstance e ValueError"
    by (rule JSONDecodeError_is_ValueError)
  from assms(4) have "exn_cls e = JSONDecodeError"
    by (rule isinstance_JSONDecodeError)
  then have nf: "\<not> isinstance e FileNotFoundError"
    by (simp add: isinstance_def)
  have "fst (load_policy E (policy_file a) (format a) (setLevel (log_level a) initial_state)) = Inl e"
    using assms v nf
    by (simp add: load_policy_def load_policy_try_def parse_policy_def Let_def)
  then obtain st1 where
    "load_policy E (policy_file a) (format a) (setLevel (log_level a) initial_state) = (Inl e, st1)"
    by (cases "load_policy E (policy_file a) (format a) (setLevel (log_level a) initial_state)") simp
  then have m: "main E a = (1, main_except e st1)"
    and "st1 = snd (load_policy E (policy_file a) (format a) (setLevel (log_level a) initial_state))"
    by (simp_all add: main_def main_try_policy_fails)
  then have "printed (trace st1) = []"
    by (simp add: observe_load_policy)
  with m v nf show ?thesis
    by (simp add: main_except_def)
qed

text \<open>
  Claim C3 at a policy file that is not JSON, loaded with format \<^verbatim>\<open>json\<close>: the run
  exits with status 1, and what it prints is the message of the invalid-input category,
  not the message \<open>main\<close> holds for JSON parse errors. The log shows the parse error
  twice, from the inner handler of \<^verbatim>\<open>load_policy\<close> and from its handler for
  \<^verbatim>\<open>ValueError\<close>.
\<close>

theorem main_json_parse_error_prints_invalid_input:
  "fst (main sample_env broken_json_args) = 1 \<and>
   printed (trace (snd (main sample_env broken_json_args))) =
     [''Invalid input provided.  See logs for details.''] \<and>
   logged (trace (snd (main sample_env broken_json_args))) =
     [''Error parsing JSON file: Expecting property name enclosed in double quotes: line 1 column 2 (char 1)'',
      ''Expecting property name enclosed in double quotes: line 1 column 2 (char 1)'']"
  by (simp add: broken_json_args_def sample_defs program_defs)

text \<open>
  Claim C9. When the policy file can be read and the parser of the chosen format builds
  \<^verbatim>\<open>None\<close> from its text (an empty YAML file, the JSON text \<^verbatim>\<open>null\<close>),
  \<^verbatim>\<open>load_policy\<close> fails with the \<^verbatim>\<open>ValueError\<close> of the wrong root shape and logs its
  message (unless the level is \<^verbatim>\<open>CRITICAL\<close>); \<open>main\<close> then prints the invalid-input
  message and exits with status 1.
\<close>

theorem null_document_is_invalid_input:
  assumes "open_file E (policy_file a) = Inr text"
    and "(format a = ''yaml'' \<and> yaml_safe_load E text = Inr PNone) \<or>
         (format a = ''json'' \<and> json_load E text = Inr PNone)"
  shows "fst (load_policy E (policy_file a) (format a) st) =
           Inl (Exn ValueError ''Policy file must contain a dictionary.'') \<and>
         logged (trace (snd (load_policy E (policy_file a) (format a) (setLevel (log_level a) initial_state)))) =
           (if level_no (log_level a) \<le> level_no ERROR then [''Policy file must contain a dictionary.''] else []) \<and>
         fst (main E a) = 1 \<and>
         printed (trace (snd (main E a))) = [''Invalid input provided.  See logs for details.'']"
proof -
  let ?e = "Exn ValueError ''Policy file must contain a dictionary.''"
  let ?st0 = "setLevel (log_level a) initial_state"
  have fails: "fst (load_policy E (policy_file a) (format a) st) = Inl ?e" for st
    using assms
    by (auto simp add: load_policy_def load_policy_try_def parse_policy_def Let_def)
  have log: "logged (trace (snd (load_policy E (policy_file a) (format a) ?st0))) =
           (if level_no (log_level a) \<le> level_no ERROR then [''Policy file must contain a dictionary.''] else [])"
    using assms
    by (auto simp add: load_policy_def load_policy_try_def parse_policy_def Let_def
          logging_error_def logging_log_def)
  from fails [of ?st0] obtain st1 where
    lp: "load_policy E (policy_file a) (format a) ?st0 = (Inl ?e, st1)"
    by (cases "load_policy E (policy_file a) (format a) ?st0") simp
  then have m: "main E a = (1, main_except ?e st1)"
    and "st1 = snd (load_policy E (policy_file a) (format a) ?st0)"
    by (simp_all add: main_def main_try_policy_fails)
  then have "printed (trace st1) = []"
    by (simp add: observe_load_policy)
  with m have "fst (main E a) = 1 \<and>
         printed (trace (snd (main E a))) = [''Invalid input provided.  See logs for details.'']"
    by (simp add: main_except_def)
  with fails log show ?thesis by simp
qed

theorem null_document_is_invalid_input_witness:
  "fst (load_policy sample_env ''empty.yaml'' ''yaml'' initial_state) =
     Inl (Exn ValueError ''Policy file must contain a dictionary.'') \<and>
   fst (main sample_env empty_yaml_args) = 1 \<and>
   printed (trace (snd (main sample_env empty_yaml_args))) =
     [''Invalid input provided.  See logs for details.''] \<and>
   fst (load_policy sample_env ''null.json'' ''json'' initial_state) =
     Inl (Exn ValueError ''Policy file must contain a dictionary.'') \<and>
   fst (main sample_env null_json_args) = 1 \<and>
   printed (trace (snd (main sample_env null_json_args))) =
     [''Invalid input provided.  See logs for details.'']"
  using null_document_is_invalid_input [of sample_env empty_yaml_args "[]" initial_state]
        null_document_is_invalid_input [of sample_env null_json_args "''null''" initial_state]
  by (simp add: empty_yaml_args_def null_json_args_def sample_defs)




end
